theory Spec2Isabelle
  imports Main "HOL-Library.Sublist"
begin

section \<open>Python values\<close>

text \<open>
  The values that travel through \<^verbatim>\<open>deploy\<close>: what the orchestration client hands back
  (parsed JSON) and what is passed to it as keyword arguments. A Python \<^verbatim>\<open>dict\<close> with string
  keys is an association list with distinct keys, in insertion order.
\<close>

datatype jval =
    JNone
  | JBool bool
  | JInt int
  | JStr string
  | JList "jval list"
  | JDict "(string \<times> jval) list"

type_synonym pydict = "(string \<times> jval) list"

text \<open>
  Exceptions are values. \<open>Failure\<close> is an exception raised inside a collaborator (the
  build engine, the secret provider, the orchestration client), with its reason.
\<close>

datatype error =
    KeyError string
  | TypeError
  | ValueError string
  | Failure string

text \<open>\<^verbatim>\<open>d[k]\<close>, \<^verbatim>\<open>k in d\<close>, \<^verbatim>\<open>d.get(k, default)\<close> and \<^verbatim>\<open>d[k] = v\<close> on a dict.\<close>

definition getitem :: "(string \<times> 'a) list \<Rightarrow> string \<Rightarrow> error + 'a" where
  "getitem d k = (case map_of d k of None \<Rightarrow> Inl (KeyError k) | Some v \<Rightarrow> Inr v)"

definition contains_key :: "(string \<times> 'a) list \<Rightarrow> string \<Rightarrow> bool" where
  "contains_key d k = (map_of d k \<noteq> None)"

definition get_default :: "(string \<times> 'a) list \<Rightarrow> string \<Rightarrow> 'a \<Rightarrow> 'a" where
  "get_default d k fallback = (case map_of d k of None \<Rightarrow> fallback | Some v \<Rightarrow> v)"

fun setitem :: "(string \<times> 'a) list \<Rightarrow> string \<Rightarrow> 'a \<Rightarrow> (string \<times> 'a) list" where
  "setitem [] k v = [(k, v)]"
| "setitem ((k', v') # d) k v = (if k' = k then (k, v) # d else (k', v') # setitem d k v)"

section \<open>Collaborators and effects\<close>

text \<open>
  A container of the build engine is the list of steps that describe it; nothing runs
  until it is published. A directory and a secret are handles.
\<close>

type_synonym directory = string
type_synonym secret = string

datatype step =
    From string
  | WithWorkdir string
  | WithMountedDirectory string directory
  | WithExec "string list"
  | WithEntrypoint "string list"

type_synonym container = "step list"

text \<open>
  Every call that leaves the process is an event of the run, with its arguments and what
  came back. The responses of the orchestration client are typed by the shapes the
  service declares: a list response maps its keys to lists of ARN strings, a describe
  response maps \<^verbatim>\<open>taskDefinition\<close> to the body of the revision, a register response maps
  \<^verbatim>\<open>taskDefinition\<close> to a dict of strings. A key the service leaves out is absent.
\<close>

type_synonym list_response = "(string \<times> string list) list"
type_synonym describe_response = "(string \<times> pydict) list"
type_synonym register_response = "(string \<times> (string \<times> string) list) list"

datatype event =
    Publish container string "error + string"
  | Plaintext secret "error + string"
  | Boto3Client string pydict "error + unit"
  | ListTaskDefinitions pydict "error + list_response"
  | DescribeTaskDefinition pydict "error + describe_response"
  | RegisterTaskDefinition pydict "error + register_response"
  | UpdateService pydict "error + unit"

text \<open>
  The world outside is a state \<open>'w\<close> and the collaborators are functions on it: each
  takes the arguments of the call and the world, and gives the outcome (an exception or
  a value) and the world after the call.
\<close>

record 'w collaborators =
  publish :: "container \<Rightarrow> string \<Rightarrow> 'w \<Rightarrow> (error + string) \<times> 'w"
  plaintext :: "secret \<Rightarrow> 'w \<Rightarrow> (error + string) \<times> 'w"
  boto3_client :: "string \<Rightarrow> pydict \<Rightarrow> 'w \<Rightarrow> (error + unit) \<times> 'w"
  list_task_definitions :: "pydict \<Rightarrow> 'w \<Rightarrow> (error + list_response) \<times> 'w"
  describe_task_definition :: "pydict \<Rightarrow> 'w \<Rightarrow> (error + describe_response) \<times> 'w"
  register_task_definition :: "pydict \<Rightarrow> 'w \<Rightarrow> (error + register_response) \<times> 'w"
  update_service :: "pydict \<Rightarrow> 'w \<Rightarrow> (error + unit) \<times> 'w"

text \<open>
  A piece of the program is a function from the world to its outcome, the events it
  caused and the world it leaves. \<open>request\<close> is one call to a collaborator, \<open>local_step\<close>
  a computation inside the process, \<open>and_then\<close> the sequencing of statements: an
  exception ends the run there.
\<close>

type_synonym ('a, 'w) action = "'w \<Rightarrow> (error + 'a) \<times> event list \<times> 'w"

definition request :: "(error + 'a \<Rightarrow> event) \<Rightarrow> ('w \<Rightarrow> (error + 'a) \<times> 'w) \<Rightarrow> ('a, 'w) action" where
  "request ev f w = (case f w of (r, w') \<Rightarrow> (r, [ev r], w'))"

definition local_step :: "error + 'a \<Rightarrow> ('a, 'w) action" where
  "local_step r w = (r, [], w)"

definition and_then :: "('a, 'w) action \<Rightarrow> ('a \<Rightarrow> ('b, 'w) action) \<Rightarrow> ('b, 'w) action" where
  "and_then m f w =
     (case m w of
        (Inl e, evs, w') \<Rightarrow> (Inl e, evs, w')
      | (Inr x, evs, w') \<Rightarrow> (case f x w' of (r, evs', w'') \<Rightarrow> (r, evs @ evs', w'')))"

section \<open>The module\<close>

text \<open>The object's two attributes, and their defaults (lines 11 and 12).\<close>

record ecsdemo_cicd =
  image_attr :: string
  registry :: string

definition default_module :: ecsdemo_cicd where
  "default_module =
     \<lparr>image_attr = ''public.ecr.aws/docker/library/alpine:latest'',
      registry = ''ttl.sh/ecsdemo-cicd''\<rparr>"

text \<open>\<^verbatim>\<open>build\<close> (lines 15 to 36) composes the steps of the image.\<close>

definition build :: "ecsdemo_cicd \<Rightarrow> directory \<Rightarrow> container" where
  "build self dir =
     [From (image_attr self),
      WithWorkdir ''/app'',
      WithMountedDirectory ''/app'' dir,
      WithExec [''apk'', ''add'', ''--no-cache'', ''python3'', ''py3-pip''],
      WithExec [''python3'', ''-m'', ''venv'', ''/path/to/venv''],
      WithExec [''/path/to/venv/bin/pip3'', ''install'', ''-r'', ''requirements.txt'']]"

text \<open>
  \<^verbatim>\<open>push\<close> (lines 39 to 45) adds the entrypoint and publishes to the registry; what
  the engine answers is the image reference.
\<close>

definition push_container :: "ecsdemo_cicd \<Rightarrow> directory \<Rightarrow> container" where
  "push_container self dir = build self dir @ [WithEntrypoint [''/path/to/venv/bin/python3'', ''app.py'']]"

definition push :: "'w collaborators \<Rightarrow> ecsdemo_cicd \<Rightarrow> directory \<Rightarrow> (string, 'w) action" where
  "push co self dir =
     request (Publish (push_container self dir) (registry self))
       (publish co (push_container self dir) (registry self))"

subsection \<open>The derivation of the new revision\<close>

text \<open>
  The body of the loop of lines 104 to 106, on one element \<^verbatim>\<open>ctr\<close>:
  \<^verbatim>\<open>if 'image' in ctr: ctr['image'] = image\<close>. On a dict the test is on the keys; on a
  string it is a substring test and on a list a membership test, and the assignment then
  raises; a value of another type does not support \<^verbatim>\<open>in\<close>.
\<close>

fun update_ctr :: "string \<Rightarrow> jval \<Rightarrow> error + jval" where
  "update_ctr image' (JDict ctr) =
     Inr (if contains_key ctr ''image'' then JDict (setitem ctr ''image'' (JStr image')) else JDict ctr)"
| "update_ctr image' (JStr s) = (if sublist ''image'' s then Inl TypeError else Inr (JStr s))"
| "update_ctr image' (JList xs) = (if JStr ''image'' \<in> set xs then Inl TypeError else Inr (JList xs))"
| "update_ctr image' JNone = Inl TypeError"
| "update_ctr image' (JBool b) = Inl TypeError"
| "update_ctr image' (JInt i) = Inl TypeError"

text \<open>The loop over the elements, in order; the first exception ends it.\<close>

fun update_ctrs :: "string \<Rightarrow> jval list \<Rightarrow> error + jval list" where
  "update_ctrs image' [] = Inr []"
| "update_ctrs image' (ctr # rest) =
     (case update_ctr image' ctr of
        Inl e \<Rightarrow> Inl e
      | Inr ctr' \<Rightarrow> (case update_ctrs image' rest of Inl e \<Rightarrow> Inl e | Inr rest' \<Rightarrow> Inr (ctr' # rest')))"

text \<open>
  \<^verbatim>\<open>for ctr in task_definition['containerDefinitions']\<close>: a list gives its elements, which
  the loop updates in place; a dict gives its keys and a string its characters, which the
  loop cannot change; a value of another type is not iterable.
\<close>

definition update_images :: "string \<Rightarrow> jval \<Rightarrow> error + jval" where
  "update_images image' cds =
     (case cds of
        JList ctrs \<Rightarrow> (case update_ctrs image' ctrs of Inl e \<Rightarrow> Inl e | Inr ctrs' \<Rightarrow> Inr (JList ctrs'))
      | JDict d \<Rightarrow> (case update_ctrs image' (map (\<lambda>kv. JStr (fst kv)) d) of Inl e \<Rightarrow> Inl e | Inr _ \<Rightarrow> Inr (JDict d))
      | JStr s \<Rightarrow> (case update_ctrs image' (map (\<lambda>c. JStr [c]) s) of Inl e \<Rightarrow> Inl e | Inr _ \<Rightarrow> Inr (JStr s))
      | _ \<Rightarrow> Inl TypeError)"

text \<open>
  Lines 104 to 119: the loop, then the keyword arguments of the registration, read from
  the body in the order the call lists them.
\<close>

definition register_arguments :: "string \<Rightarrow> pydict \<Rightarrow> error + pydict" where
  "register_arguments image' task_definition =
     (case getitem task_definition ''containerDefinitions'' of
        Inl e \<Rightarrow> Inl e
      | Inr cds \<Rightarrow>
     (case update_images image' cds of
        Inl e \<Rightarrow> Inl e
      | Inr cds' \<Rightarrow>
     (case getitem task_definition ''family'' of
        Inl e \<Rightarrow> Inl e
      | Inr family \<Rightarrow>
          Inr [(''family'', family),
               (''containerDefinitions'', cds'),
               (''volumes'', get_default task_definition ''volumes'' (JList [])),
               (''taskRoleArn'', get_default task_definition ''taskRoleArn'' JNone),
               (''executionRoleArn'', get_default task_definition ''executionRoleArn'' JNone),
               (''networkMode'', get_default task_definition ''networkMode'' JNone),
               (''requiresCompatibilities'', get_default task_definition ''requiresCompatibilities'' (JList [])),
               (''cpu'', get_default task_definition ''cpu'' JNone),
               (''memory'', get_default task_definition ''memory'' JNone)])))"

subsection \<open>deploy\<close>

text \<open>
  \<^verbatim>\<open>deploy\<close> (lines 57 to 137). The Python variable \<^verbatim>\<open>image\<close> is written \<open>image'\<close>
  (\<open>image\<close> is a constant of HOL); the parameter is rebound by the first statement
  (line 71). The \<^verbatim>\<open>except\<close> clause prints and raises the exception again, so an exception
  of the \<^verbatim>\<open>try\<close> block leaves \<^verbatim>\<open>deploy\<close> as it was raised; what is printed (lines 96,
  124 and 136) is not part of the model.
\<close>

definition deploy ::
  "'w collaborators \<Rightarrow> ecsdemo_cicd \<Rightarrow> string \<Rightarrow> directory \<Rightarrow> secret \<Rightarrow> secret \<Rightarrow> secret \<Rightarrow>
   string \<Rightarrow> string \<Rightarrow> string \<Rightarrow> string option \<Rightarrow> (string, 'w) action" where
  "deploy co self cluster dir access_key secret_key session_token region service
     task_definition_family image' =
   and_then (push co self dir) (\<lambda>image'.
   and_then (request (Plaintext access_key) (plaintext co access_key)) (\<lambda>key_id.
   and_then (request (Plaintext secret_key) (plaintext co secret_key)) (\<lambda>secret_access_key.
   and_then (request (Plaintext session_token) (plaintext co session_token)) (\<lambda>token.
   and_then (request
       (Boto3Client ''ecs''
          [(''aws_access_key_id'', JStr key_id),
           (''aws_secret_access_key'', JStr secret_access_key),
           (''aws_session_token'', JStr token),
           (''region_name'', JStr region)])
       (boto3_client co ''ecs''
          [(''aws_access_key_id'', JStr key_id),
           (''aws_secret_access_key'', JStr secret_access_key),
           (''aws_session_token'', JStr token),
           (''region_name'', JStr region)])) (\<lambda>ecs_client.
   and_then (request
       (ListTaskDefinitions
          [(''familyPrefix'', JStr task_definition_family), (''sort'', JStr ''DESC''), (''maxResults'', JInt 1)])
       (list_task_definitions co
          [(''familyPrefix'', JStr task_definition_family), (''sort'', JStr ''DESC''), (''maxResults'', JInt 1)]))
     (\<lambda>response.
   and_then (local_step (getitem response ''taskDefinitionArns'')) (\<lambda>arns.
   (case arns of
      [] \<Rightarrow> local_step (Inl (ValueError (''No task definitions found for family: '' @ task_definition_family)))
    | latest_task_definition_arn # _ \<Rightarrow>
   and_then (request
       (DescribeTaskDefinition [(''taskDefinition'', JStr latest_task_definition_arn)])
       (describe_task_definition co [(''taskDefinition'', JStr latest_task_definition_arn)]))
     (\<lambda>described.
   and_then (local_step (getitem described ''taskDefinition'')) (\<lambda>task_definition.
   and_then (local_step (register_arguments image' task_definition)) (\<lambda>arguments.
   and_then (request (RegisterTaskDefinition arguments) (register_task_definition co arguments))
     (\<lambda>new_task_definition.
   and_then (local_step (getitem new_task_definition ''taskDefinition'')) (\<lambda>registered.
   and_then (local_step (getitem registered ''taskDefinitionArn'')) (\<lambda>new_task_definition_arn.
   and_then (request
       (UpdateService
          [(''cluster'', JStr cluster), (''service'', JStr service),
           (''taskDefinition'', JStr new_task_definition_arn)])
       (update_service co
          [(''cluster'', JStr cluster), (''service'', JStr service),
           (''taskDefinition'', JStr new_task_definition_arn)])) (\<lambda>_.
   local_step
     (Inr (''Service '' @ service @ '' updated to use task definition '' @ new_task_definition_arn))
   )))))))))))))))"

section \<open>Observing a run\<close>

text \<open>The three parts of what an action gives.\<close>

definition result_of :: "(error + 'a) \<times> event list \<times> 'w \<Rightarrow> error + 'a" where
  "result_of run = fst run"

definition events_of :: "(error + 'a) \<times> event list \<times> 'w \<Rightarrow> event list" where
  "events_of run = fst (snd run)"

definition world_of :: "(error + 'a) \<times> event list \<times> 'w \<Rightarrow> 'w" where
  "world_of run = snd (snd run)"

text \<open>
  The calls of one kind among the events of a run, in order, each with its arguments and
  its outcome.
\<close>

fun publications :: "event list \<Rightarrow> (container \<times> string \<times> (error + string)) list" where
  "publications [] = []"
| "publications (Publish c address r # evs) = (c, address, r) # publications evs"
| "publications (_ # evs) = publications evs"

fun listings :: "event list \<Rightarrow> (pydict \<times> (error + list_response)) list" where
  "listings [] = []"
| "listings (ListTaskDefinitions kw r # evs) = (kw, r) # listings evs"
| "listings (_ # evs) = listings evs"

fun descriptions :: "event list \<Rightarrow> (pydict \<times> (error + describe_response)) list" where
  "descriptions [] = []"
| "descriptions (DescribeTaskDefinition kw r # evs) = (kw, r) # descriptions evs"
| "descriptions (_ # evs) = descriptions evs"

fun registrations :: "event list \<Rightarrow> (pydict \<times> (error + register_response)) list" where
  "registrations [] = []"
| "registrations (RegisterTaskDefinition kw r # evs) = (kw, r) # registrations evs"
| "registrations (_ # evs) = registrations evs"

fun service_updates :: "event list \<Rightarrow> (pydict \<times> (error + unit)) list" where
  "service_updates [] = []"
| "service_updates (UpdateService kw r # evs) = (kw, r) # service_updates evs"
| "service_updates (_ # evs) = service_updates evs"

text \<open>\<open>after m w Q\<close>: the run of \<open>m\<close> from \<open>w\<close> ends in an outcome, events and a world that satisfy \<open>Q\<close>.\<close>

definition after :: "('a, 'w) action \<Rightarrow> 'w \<Rightarrow> (error + 'a \<Rightarrow> event list \<Rightarrow> 'w \<Rightarrow> bool) \<Rightarrow> bool" where
  "after m w Q = (case m w of (r, evs, w') \<Rightarrow> Q r evs w')"

section \<open>An orchestration service in memory\<close>

text \<open>
  To run \<^verbatim>\<open>deploy\<close> on concrete inputs the collaborators need a world. This one keeps the
  registered revisions (newest first, each with its ARN) and the revision every service
  runs. Publishing answers \<open>image_reference\<close>; a secret's plaintext is its handle; a
  listing gives the ARNs of the revisions whose family starts with the prefix, newest
  first; a registration appends a revision numbered after those of its family, unless
  \<open>rejection\<close> is set.
\<close>

fun decimal :: "nat \<Rightarrow> string" where
  "decimal n = (if n < 10 then [''0123456789'' ! n] else decimal (n div 10) @ [''0123456789'' ! (n mod 10)])"

record cloud =
  image_reference :: "error + string"
  revisions :: "(string \<times> pydict) list"
  rejection :: "error option"
  running :: "(string \<times> string \<times> string) list"

definition in_family :: "string \<Rightarrow> pydict \<Rightarrow> bool" where
  "in_family p body = (case map_of body ''family'' of Some (JStr f) \<Rightarrow> prefix p f | _ \<Rightarrow> False)"

definition cloud_list :: "pydict \<Rightarrow> cloud \<Rightarrow> (error + list_response) \<times> cloud" where
  "cloud_list kw w =
     (case (map_of kw ''familyPrefix'', map_of kw ''maxResults'') of
        (Some (JStr p), Some (JInt n)) \<Rightarrow>
          (Inr [(''taskDefinitionArns'',
                 take (nat n) (map fst (filter (\<lambda>rev. in_family p (snd rev)) (revisions w))))], w)
      | _ \<Rightarrow> (Inl (Failure ''ParamValidationError''), w))"

definition cloud_describe :: "pydict \<Rightarrow> cloud \<Rightarrow> (error + describe_response) \<times> cloud" where
  "cloud_describe kw w =
     (case map_of kw ''taskDefinition'' of
        Some (JStr arn) \<Rightarrow>
          (case map_of (revisions w) arn of
             Some body \<Rightarrow> (Inr [(''taskDefinition'', body)], w)
           | None \<Rightarrow> (Inl (Failure ''ClientException: Unable to describe task definition.''), w))
      | _ \<Rightarrow> (Inl (Failure ''ParamValidationError''), w))"

definition cloud_register :: "pydict \<Rightarrow> cloud \<Rightarrow> (error + register_response) \<times> cloud" where
  "cloud_register kw w =
     (case rejection w of
        Some e \<Rightarrow> (Inl e, w)
      | None \<Rightarrow>
          (case map_of kw ''family'' of
             Some (JStr f) \<Rightarrow>
               (let arn = f @ '':'' @
                      decimal (Suc (length (filter (\<lambda>rev. map_of (snd rev) ''family'' = Some (JStr f)) (revisions w))))
                in (Inr [(''taskDefinition'', [(''taskDefinitionArn'', arn)])],
                    w\<lparr>revisions := (arn, (''taskDefinitionArn'', JStr arn) # kw) # revisions w\<rparr>))
           | _ \<Rightarrow> (Inl (Failure ''ParamValidationError''), w)))"

definition cloud_update :: "pydict \<Rightarrow> cloud \<Rightarrow> (error + unit) \<times> cloud" where
  "cloud_update kw w =
     (case (map_of kw ''cluster'', map_of kw ''service'', map_of kw ''taskDefinition'') of
        (Some (JStr c), Some (JStr s), Some (JStr arn)) \<Rightarrow>
          (if arn \<in> fst ` set (revisions w) then (Inr (), w\<lparr>running := (c, s, arn) # running w\<rparr>)
           else (Inl (Failure ''ClientException: TaskDefinition not found.''), w))
      | _ \<Rightarrow> (Inl (Failure ''ParamValidationError''), w))"

definition in_memory :: "cloud collaborators" where
  "in_memory =
     \<lparr>publish = (\<lambda>c address w. (image_reference w, w)),
      plaintext = (\<lambda>s w. (Inr s, w)),
      boto3_client = (\<lambda>name config w. (Inr (), w)),
      list_task_definitions = cloud_list,
      describe_task_definition = cloud_describe,
      register_task_definition = cloud_register,
      update_service = cloud_update\<rparr>"

text \<open>
  The family \<^verbatim>\<open>web-task\<close> with one revision of two containers, of which only the first
  has an image; the build publishes \<^verbatim>\<open>registry/app:sha123\<close>.
\<close>

definition web_task :: pydict where
  "web_task =
     [(''taskDefinitionArn'', JStr ''web-task:1''),
      (''family'', JStr ''web-task''),
      (''containerDefinitions'',
         JList [JDict [(''name'', JStr ''app''), (''image'', JStr ''old:1.0'')],
                JDict [(''name'', JStr ''sidecar'')]]),
      (''networkMode'', JStr ''awsvpc''),
      (''runtimePlatform'', JDict [(''cpuArchitecture'', JStr ''ARM64'')])]"

definition web_world :: cloud where
  "web_world =
     \<lparr>image_reference = Inr ''registry/app:sha123'', revisions = [(''web-task:1'', web_task)],
      rejection = None, running = []\<rparr>"

text \<open>A world with no revision at all, one that rejects registrations, one whose build fails.\<close>

definition empty_world :: cloud where
  "empty_world = web_world\<lparr>revisions := []\<rparr>"

definition rejecting_world :: cloud where
  "rejecting_world = web_world\<lparr>rejection := Some (Failure ''AccessDeniedException: not authorized'')\<rparr>"

definition broken_build_world :: cloud where
  "broken_build_world = web_world\<lparr>image_reference := Inl (Failure ''pip3 install: exit code 1'')\<rparr>"

text \<open>A family whose only revision has no container with an image.\<close>

definition bare_task :: pydict where
  "bare_task =
     [(''family'', JStr ''bare''),
      (''containerDefinitions'', JList [JDict [(''name'', JStr ''sidecar'')]])]"

definition bare_world :: cloud where
  "bare_world = web_world\<lparr>revisions := [(''bare:1'', bare_task)]\<rparr>"

text \<open>\<^verbatim>\<open>deploy\<close> of the service \<^verbatim>\<open>web\<close> of the cluster \<^verbatim>\<open>demo\<close>, for a family and an image argument.\<close>

definition deploy_web :: "string \<Rightarrow> string option \<Rightarrow> (string, cloud) action" where
  "deploy_web family image' =
     deploy in_memory default_module ''demo'' ''.'' ''access-key'' ''secret-key'' ''session-token''
       ''us-east-1'' ''web'' family image'"

text \<open>Two runs for the family \<^verbatim>\<open>web-task\<close>, the second from the world the first left.\<close>

definition first_run :: "(error + string) \<times> event list \<times> cloud" where
  "first_run = deploy_web ''web-task'' None web_world"

definition second_run :: "(error + string) \<times> event list \<times> cloud" where
  "second_run = deploy_web ''web-task'' None (world_of first_run)"

section \<open>Dicts and the loop over the containers\<close>

lemma map_of_setitem: "map_of (setitem d k v) = (map_of d)(k \<mapsto> v)"
  by (induction d) auto

lemma keys_setitem: "contains_key d k \<Longrightarrow> map fst (setitem d k v) = map fst d"
  by (induction d) (auto simp: contains_key_def)

lemma getitem_setitem_same: "getitem (setitem d k v) k = Inr v"
  by (simp add: getitem_def map_of_setitem)

lemma getitem_setitem_other: "k' \<noteq> k \<Longrightarrow> getitem (setitem d k v) k' = getitem d k'"
  by (simp add: getitem_def map_of_setitem)

lemma update_ctrs_length: "update_ctrs ref ctrs = Inr ctrs' \<Longrightarrow> length ctrs' = length ctrs"
  by (induction ctrs arbitrary: ctrs') (auto split: sum.splits)

lemma update_ctrs_nth:
  "update_ctrs ref ctrs = Inr ctrs' \<Longrightarrow> i < length ctrs \<Longrightarrow> update_ctr ref (ctrs ! i) = Inr (ctrs' ! i)"
proof (induction ctrs arbitrary: ctrs' i)
  case Nil
  then show ?case by simp
next
  case (Cons ctr rest)
  then show ?case by (cases i) (auto split: sum.splits)
qed

lemma update_ctrs_without_image:
  "\<forall>ctr\<in>set ctrs. \<exists>d. ctr = JDict d \<and> \<not> contains_key d ''image'' \<Longrightarrow> update_ctrs ref ctrs = Inr ctrs"
  by (induction ctrs) auto

lemma register_arguments_Inr:
  assumes "register_arguments ref td = Inr kw"
  obtains cds cds' fam where
    "getitem td ''containerDefinitions'' = Inr cds" "update_images ref cds = Inr cds'"
    "getitem td ''family'' = Inr fam"
    "kw = [(''family'', fam),
           (''containerDefinitions'', cds'),
           (''volumes'', get_default td ''volumes'' (JList [])),
           (''taskRoleArn'', get_default td ''taskRoleArn'' JNone),
           (''executionRoleArn'', get_default td ''executionRoleArn'' JNone),
           (''networkMode'', get_default td ''networkMode'' JNone),
           (''requiresCompatibilities'', get_default td ''requiresCompatibilities'' (JList [])),
           (''cpu'', get_default td ''cpu'' JNone),
           (''memory'', get_default td ''memory'' JNone)]"
  using assms by (auto simp: register_arguments_def split: sum.splits)


section \<open>Reasoning about runs\<close>

lemma after_and_then:
  "after (and_then m f) w Q =
     after m w (\<lambda>r evs w1. case r of Inl e \<Rightarrow> Q (Inl e) evs w1
                             | Inr x \<Rightarrow> after (f x) w1 (\<lambda>r' evs' w2. Q r' (evs @ evs') w2))"
  by (simp add: after_def and_then_def split: prod.splits sum.splits)

lemma after_request:
  "after (request ev f) w Q = (case f w of (r, w') \<Rightarrow> Q r [ev r] w')"
  by (simp add: after_def request_def split: prod.splits)

lemma after_local_step: "after (local_step r) w Q = Q r [] w"
  by (simp add: after_def local_step_def)

lemma after_case_list:
  "after (case xs of [] \<Rightarrow> m | y # ys \<Rightarrow> n y ys) w Q =
     (case xs of [] \<Rightarrow> after m w Q | y # ys \<Rightarrow> after (n y ys) w Q)"
  by (cases xs) simp_all

lemma afterD: "after m w Q \<Longrightarrow> m w = (r, evs, w') \<Longrightarrow> Q r evs w'"
  by (simp add: after_def)

lemmas after_simps = after_and_then after_request after_local_step after_case_list

lemma run_triple: "run = (result_of run, events_of run, world_of run)"
  by (simp add: result_of_def events_of_def world_of_def)

lemma registration_origin:
  assumes "deploy co self cluster dir access_key secret_key session_token region service family image' w =
             (r, evs, w')"
      and "(kw, rr) \<in> set (registrations evs)"
  shows "\<exists>ref response latest rest described td.
           publications evs = [(push_container self dir, registry self, Inr ref)] \<and>
           listings evs =
             [([(''familyPrefix'', JStr family), (''sort'', JStr ''DESC''), (''maxResults'', JInt 1)],
               Inr response)] \<and>
           getitem response ''taskDefinitionArns'' = Inr (latest # rest) \<and>
           descriptions evs = [([(''taskDefinition'', JStr latest)], Inr described)] \<and>
           getitem described ''taskDefinition'' = Inr td \<and>
           register_arguments ref td = Inr kw \<and>
           registrations evs = [(kw, rr)]"
proof -
  have "after (deploy co self cluster dir access_key secret_key session_token region service family image') w
          (\<lambda>r evs w'. (kw, rr) \<in> set (registrations evs) \<longrightarrow>
             (\<exists>ref response latest rest described td.
                publications evs = [(push_container self dir, registry self, Inr ref)] \<and>
                listings evs =
                  [([(''familyPrefix'', JStr family), (''sort'', JStr ''DESC''), (''maxResults'', JInt 1)],
                    Inr response)] \<and>
                getitem response ''taskDefinitionArns'' = Inr (latest # rest) \<and>
                descriptions evs = [([(''taskDefinition'', JStr latest)], Inr described)] \<and>
                getitem described ''taskDefinition'' = Inr td \<and>
                register_arguments ref td = Inr kw \<and>
                registrations evs = [(kw, rr)]))"
    unfolding deploy_def push_def
    by (simp add: after_simps split: prod.splits sum.splits list.splits)
  from afterD[OF this assms(1)] assms(2) show ?thesis by simp
qed

lemma registration_follows:
  assumes "deploy co self cluster dir access_key secret_key session_token region service family image' w =
             (r, evs, w')"
      and "descriptions evs = [(asked, Inr described)]"
      and "getitem described ''taskDefinition'' = Inr td"
  shows "\<exists>ref. publications evs = [(push_container self dir, registry self, Inr ref)] \<and>
           (\<forall>kw. register_arguments ref td = Inr kw \<longrightarrow>
              (\<exists>rr. registrations evs = [(kw, rr)] \<and>
                 (\<forall>response registered arn.
                    rr = Inr response \<longrightarrow> getitem response ''taskDefinition'' = Inr registered \<longrightarrow>
                    getitem registered ''taskDefinitionArn'' = Inr arn \<longrightarrow>
                    (\<exists>ur. service_updates evs =
                       [([(''cluster'', JStr cluster), (''service'', JStr service),
                          (''taskDefinition'', JStr arn)], ur)]))))"
proof -
  have "after (deploy co self cluster dir access_key secret_key session_token region service family image') w
          (\<lambda>r evs w'. descriptions evs = [(asked, Inr described)] \<longrightarrow>
             (\<exists>ref. publications evs = [(push_container self dir, registry self, Inr ref)] \<and>
           (\<forall>kw. register_arguments ref td = Inr kw \<longrightarrow>
              (\<exists>rr. registrations evs = [(kw, rr)] \<and>
                 (\<forall>response registered arn.
                    rr = Inr response \<longrightarrow> getitem response ''taskDefinition'' = Inr registered \<longrightarrow>
                    getitem registered ''taskDefinitionArn'' = Inr arn \<longrightarrow>
                    (\<exists>ur. service_updates evs =
                       [([(''cluster'', JStr cluster), (''service'', JStr service),
                          (''taskDefinition'', JStr arn)], ur)]))))))"
    unfolding deploy_def push_def
    using assms(3)
    by (auto simp: after_simps split: prod.splits sum.splits list.splits)
  from afterD[OF this assms(1)] assms(2) show ?thesis by simp
qed

lemma success_shape:
  assumes "deploy co self cluster dir access_key secret_key session_token region service family image' w =
             (Inr message, evs, w')"
  shows "\<exists>ref response latest rest described td kw registration registered arn.
           publications evs = [(push_container self dir, registry self, Inr ref)] \<and>
           listings evs =
             [([(''familyPrefix'', JStr family), (''sort'', JStr ''DESC''), (''maxResults'', JInt 1)],
               Inr response)] \<and>
           getitem response ''taskDefinitionArns'' = Inr (latest # rest) \<and>
           descriptions evs = [([(''taskDefinition'', JStr latest)], Inr described)] \<and>
           getitem described ''taskDefinition'' = Inr td \<and>
           register_arguments ref td = Inr kw \<and>
           registrations evs = [(kw, Inr registration)] \<and>
           getitem registration ''taskDefinition'' = Inr registered \<and>
           getitem registered ''taskDefinitionArn'' = Inr arn \<and>
           service_updates evs =
             [([(''cluster'', JStr cluster), (''service'', JStr service), (''taskDefinition'', JStr arn)],
               Inr ())] \<and>
           message = ''Service '' @ service @ '' updated to use task definition '' @ arn"
proof -
  have "after (deploy co self cluster dir access_key secret_key session_token region service family image') w
          (\<lambda>r evs w'. \<forall>message. r = Inr message \<longrightarrow>
       (\<exists>ref response latest rest described td kw registration registered arn.
           publications evs = [(push_container self dir, registry self, Inr ref)] \<and>
           listings evs =
             [([(''familyPrefix'', JStr family), (''sort'', JStr ''DESC''), (''maxResults'', JInt 1)],
               Inr response)] \<and>
           getitem response ''taskDefinitionArns'' = Inr (latest # rest) \<and>
           descriptions evs = [([(''taskDefinition'', JStr latest)], Inr described)] \<and>
           getitem described ''taskDefinition'' = Inr td \<and>
           register_arguments ref td = Inr kw \<and>
           registrations evs = [(kw, Inr registration)] \<and>
           getitem registration ''taskDefinition'' = Inr registered \<and>
           getitem registered ''taskDefinitionArn'' = Inr arn \<and>
           service_updates evs =
             [([(''cluster'', JStr cluster), (''service'', JStr service), (''taskDefinition'', JStr arn)],
               Inr ())] \<and>
           message = ''Service '' @ service @ '' updated to use task definition '' @ arn))"
    unfolding deploy_def push_def
    by (simp add: after_simps split: prod.splits sum.splits list.splits)
  from afterD[OF this assms(1)] show ?thesis by simp
qed






section \<open>Running the in-memory service\<close>

lemmas evaluation =
  deploy_web_def deploy_def push_def and_then_def request_def local_step_def
  register_arguments_def update_images_def getitem_def get_default_def contains_key_def
  in_memory_def cloud_list_def cloud_describe_def cloud_register_def cloud_update_def in_family_def
  web_world_def web_task_def empty_world_def rejecting_world_def broken_build_world_def
  bare_world_def bare_task_def default_module_def first_run_def second_run_def
  result_of_def events_of_def world_of_def Let_def

lemma deploy_web_run:
  "deploy in_memory default_module ''demo'' ''.'' ''access-key'' ''secret-key'' ''session-token''
     ''us-east-1'' ''web'' family image' w =
   (result_of (deploy_web family image' w), events_of (deploy_web family image' w),
    world_of (deploy_web family image' w))"
  unfolding deploy_web_def by (rule run_triple)

section \<open>The claims\<close>

text \<open>
  C1. The container definitions that \<^verbatim>\<open>deploy\<close> registers are those of the fetched body after
  the loop: element by element, a definition with an \<^verbatim>\<open>image\<close> field has that field set to
  the reference \<^verbatim>\<open>push\<close> returned, its other fields and the order of its keys as they
  were; a definition without an \<^verbatim>\<open>image\<close> field is the same dict as before, so no field
  was introduced.
\<close>

theorem image_substitution:
  assumes "deploy co self cluster dir access_key secret_key session_token region service family image' w =
             (r, evs, w')"
      and "(kw, rr) \<in> set (registrations evs)"
  shows "\<exists>ref asked described td cds cds'.
           publications evs = [(push_container self dir, registry self, Inr ref)] \<and>
           descriptions evs = [(asked, Inr described)] \<and>
           getitem described ''taskDefinition'' = Inr td \<and>
           getitem td ''containerDefinitions'' = Inr cds \<and>
           getitem kw ''containerDefinitions'' = Inr cds' \<and>
           (\<forall>ctrs. cds = JList ctrs \<longrightarrow>
              (\<exists>ctrs'. cds' = JList ctrs' \<and> length ctrs' = length ctrs \<and>
                 (\<forall>i<length ctrs. \<forall>ctr. ctrs ! i = JDict ctr \<longrightarrow>
                    (contains_key ctr ''image'' \<longrightarrow>
                       (\<exists>ctr'. ctrs' ! i = JDict ctr' \<and>
                          getitem ctr' ''image'' = Inr (JStr ref) \<and>
                          map fst ctr' = map fst ctr \<and>
                          (\<forall>k. k \<noteq> ''image'' \<longrightarrow> getitem ctr' k = getitem ctr k))) \<and>
                    (\<not> contains_key ctr ''image'' \<longrightarrow> ctrs' ! i = JDict ctr))))"
proof -
  from registration_origin[OF assms] obtain ref latest described td where
    origin: "publications evs = [(push_container self dir, registry self, Inr ref)]"
      "descriptions evs = [([(''taskDefinition'', JStr latest)], Inr described)]"
      "getitem described ''taskDefinition'' = Inr td"
      "register_arguments ref td = Inr kw"
    by blast
  from origin(4) obtain cds cds' where
    derived: "getitem td ''containerDefinitions'' = Inr cds" "update_images ref cds = Inr cds'"
      "getitem kw ''containerDefinitions'' = Inr cds'"
    by (rule register_arguments_Inr) (simp add: getitem_def)
  have "\<exists>ctrs'. cds' = JList ctrs' \<and> length ctrs' = length ctrs \<and>
          (\<forall>i<length ctrs. \<forall>ctr. ctrs ! i = JDict ctr \<longrightarrow>
             (contains_key ctr ''image'' \<longrightarrow>
                (\<exists>ctr'. ctrs' ! i = JDict ctr' \<and>
                   getitem ctr' ''image'' = Inr (JStr ref) \<and>
                   map fst ctr' = map fst ctr \<and>
                   (\<forall>k. k \<noteq> ''image'' \<longrightarrow> getitem ctr' k = getitem ctr k))) \<and>
             (\<not> contains_key ctr ''image'' \<longrightarrow> ctrs' ! i = JDict ctr))"
    if list: "cds = JList ctrs" for ctrs
  proof -
    from derived(2) list obtain ctrs' where
      loop: "update_ctrs ref ctrs = Inr ctrs'" and cds': "cds' = JList ctrs'"
      by (auto simp: update_images_def split: sum.splits)
    have "(contains_key ctr ''image'' \<longrightarrow>
             (\<exists>ctr'. ctrs' ! i = JDict ctr' \<and>
                getitem ctr' ''image'' = Inr (JStr ref) \<and>
                map fst ctr' = map fst ctr \<and>
                (\<forall>k. k \<noteq> ''image'' \<longrightarrow> getitem ctr' k = getitem ctr k))) \<and>
          (\<not> contains_key ctr ''image'' \<longrightarrow> ctrs' ! i = JDict ctr)"
      if "i < length ctrs" "ctrs ! i = JDict ctr" for i ctr
    proof -
      from update_ctrs_nth[OF loop that(1)] that(2)
      have "ctrs' ! i =
              (if contains_key ctr ''image'' then JDict (setitem ctr ''image'' (JStr ref)) else JDict ctr)"
        by simp
      then show ?thesis
        by (simp add: getitem_setitem_same getitem_setitem_other keys_setitem)
    qed
    then have "\<forall>i<length ctrs. \<forall>ctr. ctrs ! i = JDict ctr \<longrightarrow>
             (contains_key ctr ''image'' \<longrightarrow>
                (\<exists>ctr'. ctrs' ! i = JDict ctr' \<and>
                   getitem ctr' ''image'' = Inr (JStr ref) \<and>
                   map fst ctr' = map fst ctr \<and>
                   (\<forall>k. k \<noteq> ''image'' \<longrightarrow> getitem ctr' k = getitem ctr k))) \<and>
             (\<not> contains_key ctr ''image'' \<longrightarrow> ctrs' ! i = JDict ctr)"
      by (intro allI impI)
    with cds' update_ctrs_length[OF loop] show ?thesis
      by (intro exI[of _ ctrs'] conjI)
  qed
  then have "\<forall>ctrs. cds = JList ctrs \<longrightarrow>
              (\<exists>ctrs'. cds' = JList ctrs' \<and> length ctrs' = length ctrs \<and>
                 (\<forall>i<length ctrs. \<forall>ctr. ctrs ! i = JDict ctr \<longrightarrow>
                    (contains_key ctr ''image'' \<longrightarrow>
                       (\<exists>ctr'. ctrs' ! i = JDict ctr' \<and>
                          getitem ctr' ''image'' = Inr (JStr ref) \<and>
                          map fst ctr' = map fst ctr \<and>
                          (\<forall>k. k \<noteq> ''image'' \<longrightarrow> getitem ctr' k = getitem ctr k))) \<and>
                    (\<not> contains_key ctr ''image'' \<longrightarrow> ctrs' ! i = JDict ctr)))"
    by (intro allI impI)
  with origin(1-3) derived(1,3) show ?thesis
    by (intro exI[of _ ref] exI[of _ "[(''taskDefinition'', JStr latest)]"] exI[of _ described]
          exI[of _ td] exI[of _ cds] exI[of _ cds'] conjI)
qed


theorem image_substitution_witness:
  "\<exists>kw rr.
     registrations (events_of (deploy_web ''web-task'' None web_world)) = [(kw, rr)] \<and>
     getitem kw ''containerDefinitions'' =
       Inr (JList [JDict [(''name'', JStr ''app''), (''image'', JStr ''registry/app:sha123'')],
                   JDict [(''name'', JStr ''sidecar'')]]) \<and>
     (\<exists>ref asked described td cds cds'.
        publications (events_of (deploy_web ''web-task'' None web_world)) =
          [(push_container default_module ''.'', registry default_module, Inr ref)] \<and>
        descriptions (events_of (deploy_web ''web-task'' None web_world)) = [(asked, Inr described)] \<and>
        getitem described ''taskDefinition'' = Inr td \<and>
        getitem td ''containerDefinitions'' = Inr cds \<and>
        getitem kw ''containerDefinitions'' = Inr cds' \<and>
        (\<forall>ctrs. cds = JList ctrs \<longrightarrow>
           (\<exists>ctrs'. cds' = JList ctrs' \<and> length ctrs' = length ctrs \<and>
              (\<forall>i<length ctrs. \<forall>ctr. ctrs ! i = JDict ctr \<longrightarrow>
                 (contains_key ctr ''image'' \<longrightarrow>
                    (\<exists>ctr'. ctrs' ! i = JDict ctr' \<and>
                       getitem ctr' ''image'' = Inr (JStr ref) \<and>
                       map fst ctr' = map fst ctr \<and>
                       (\<forall>k. k \<noteq> ''image'' \<longrightarrow> getitem ctr' k = getitem ctr k))) \<and>
                 (\<not> contains_key ctr ''image'' \<longrightarrow> ctrs' ! i = JDict ctr)))))"
proof -
  have "map (\<lambda>reg. getitem (fst reg) ''containerDefinitions'')
          (registrations (events_of (deploy_web ''web-task'' None web_world))) =
        [Inr (JList [JDict [(''name'', JStr ''app''), (''image'', JStr ''registry/app:sha123'')],
                     JDict [(''name'', JStr ''sidecar'')]])]"
    by (simp add: evaluation)
  then obtain kw rr where
    one: "registrations (events_of (deploy_web ''web-task'' None web_world)) = [(kw, rr)]" and
    registered: "getitem kw ''containerDefinitions'' =
       Inr (JList [JDict [(''name'', JStr ''app''), (''image'', JStr ''registry/app:sha123'')],
                   JDict [(''name'', JStr ''sidecar'')]])"
    by (cases "registrations (events_of (deploy_web ''web-task'' None web_world))") auto
  from one have "(kw, rr) \<in> set (registrations (events_of (deploy_web ''web-task'' None web_world)))"
    by simp
  from one registered image_substitution[OF deploy_web_run this] show ?thesis
    by (intro exI[of _ kw] exI[of _ rr] conjI)
qed




text \<open>
  C3. When the listing of the family answers an empty array of ARNs, \<^verbatim>\<open>deploy\<close> raises the
  error of a family that was not found (a \<^verbatim>\<open>ValueError\<close> naming the family) and calls
  neither DescribeTaskDefinition, nor RegisterTaskDefinition, nor UpdateService.
\<close>

theorem family_not_found:
  assumes "deploy co self cluster dir access_key secret_key session_token region service family image' w =
             (r, evs, w')"
      and "(kw, Inr response) \<in> set (listings evs)"
      and "getitem response ''taskDefinitionArns'' = Inr []"
  shows "r = Inl (ValueError (''No task definitions found for family: '' @ family)) \<and>
         descriptions evs = [] \<and> registrations evs = [] \<and> service_updates evs = []"
proof -
  have "after (deploy co self cluster dir access_key secret_key session_token region service family image') w
          (\<lambda>r evs w'. (kw, Inr response) \<in> set (listings evs) \<longrightarrow>
             getitem response ''taskDefinitionArns'' = Inr [] \<longrightarrow>
             r = Inl (ValueError (''No task definitions found for family: '' @ family)) \<and>
             descriptions evs = [] \<and> registrations evs = [] \<and> service_updates evs = [])"
    unfolding deploy_def push_def
    by (simp add: after_simps split: prod.splits sum.splits list.splits)
  from afterD[OF this assms(1)] assms(2,3) show ?thesis by simp
qed

theorem family_not_found_witness:
  "listings (events_of (deploy_web ''web-task'' None empty_world)) =
     [([(''familyPrefix'', JStr ''web-task''), (''sort'', JStr ''DESC''), (''maxResults'', JInt 1)],
       Inr [(''taskDefinitionArns'', [])])] \<and>
   result_of (deploy_web ''web-task'' None empty_world) =
     Inl (ValueError ''No task definitions found for family: web-task'') \<and>
   descriptions (events_of (deploy_web ''web-task'' None empty_world)) = [] \<and>
   registrations (events_of (deploy_web ''web-task'' None empty_world)) = [] \<and>
   service_updates (events_of (deploy_web ''web-task'' None empty_world)) = []"
proof -
  have listed: "listings (events_of (deploy_web ''web-task'' None empty_world)) =
     [([(''familyPrefix'', JStr ''web-task''), (''sort'', JStr ''DESC''), (''maxResults'', JInt 1)],
       Inr [(''taskDefinitionArns'', [])])]"
    by (simp add: evaluation)
  have empty: "getitem [(''taskDefinitionArns'', [] :: string list)] ''taskDefinitionArns'' = Inr []"
    by (simp add: getitem_def)
  from family_not_found[OF deploy_web_run _ empty] listed show ?thesis by simp
qed

text \<open>
  C4. When RegisterTaskDefinition fails, \<^verbatim>\<open>deploy\<close> raises the very error of the
  registration and never calls UpdateService.
\<close>

theorem registration_failure:
  assumes "deploy co self cluster dir access_key secret_key session_token region service family image' w =
             (r, evs, w')"
      and "(kw, Inl e) \<in> set (registrations evs)"
  shows "r = Inl e \<and> service_updates evs = []"
proof -
  have "after (deploy co self cluster dir access_key secret_key session_token region service family image') w
          (\<lambda>r evs w'. (kw, Inl e) \<in> set (registrations evs) \<longrightarrow> r = Inl e \<and> service_updates evs = [])"
    unfolding deploy_def push_def
    by (simp add: after_simps split: prod.splits sum.splits list.splits)
  from afterD[OF this assms(1)] assms(2) show ?thesis by simp
qed

theorem registration_failure_witness:
  "map snd (registrations (events_of (deploy_web ''web-task'' None rejecting_world))) =
     [Inl (Failure ''AccessDeniedException: not authorized'')] \<and>
   result_of (deploy_web ''web-task'' None rejecting_world) =
     Inl (Failure ''AccessDeniedException: not authorized'') \<and>
   service_updates (events_of (deploy_web ''web-task'' None rejecting_world)) = []"
proof -
  have rejected: "map snd (registrations (events_of (deploy_web ''web-task'' None rejecting_world))) =
     [Inl (Failure ''AccessDeniedException: not authorized'')]"
    by (simp add: evaluation)
  then obtain kw where
    "(kw, Inl (Failure ''AccessDeniedException: not authorized'')) \<in>
       set (registrations (events_of (deploy_web ''web-task'' None rejecting_world)))"
    by (cases "registrations (events_of (deploy_web ''web-task'' None rejecting_world))") auto
  from registration_failure[OF deploy_web_run this] rejected show ?thesis by simp
qed



text \<open>
  C6. When the publication of the image fails, \<^verbatim>\<open>deploy\<close> raises that error; the
  publication is the only call it made, so no call went to the orchestration service, and
  the world is as the failed publication left it.
\<close>

theorem build_failure:
  assumes "publish co (push_container self dir) (registry self) w = (Inl e, w')"
  shows "deploy co self cluster dir access_key secret_key session_token region service family image' w =
           (Inl e, [Publish (push_container self dir) (registry self) (Inl e)], w')"
  using assms by (simp add: deploy_def push_def and_then_def request_def)

theorem build_failure_witness:
  "deploy_web ''web-task'' None broken_build_world =
     (Inl (Failure ''pip3 install: exit code 1''),
      [Publish (push_container default_module ''.'') ''ttl.sh/ecsdemo-cicd''
         (Inl (Failure ''pip3 install: exit code 1''))],
      broken_build_world)"
proof -
  have "publish in_memory (push_container default_module ''.'') (registry default_module) broken_build_world =
          (Inl (Failure ''pip3 install: exit code 1''), broken_build_world)"
    by (simp add: in_memory_def broken_build_world_def)
  from build_failure[OF this] show ?thesis by (simp add: deploy_web_def default_module_def)
qed




text \<open>
  C8. When \<^verbatim>\<open>deploy\<close> returns, it returns the string
  \<^verbatim>\<open>Service <svc> updated to use task definition <newArn>\<close>, where \<^verbatim>\<open><svc>\<close> is the
  argument \<open>service\<close> and \<^verbatim>\<open><newArn>\<close> the ARN in the response of the one registration of
  the run.
\<close>

theorem confirmation_string:
  assumes "deploy co self cluster dir access_key secret_key session_token region service family image' w =
             (Inr message, evs, w')"
  shows "\<exists>kw registration registered arn.
           registrations evs = [(kw, Inr registration)] \<and>
           getitem registration ''taskDefinition'' = Inr registered \<and>
           getitem registered ''taskDefinitionArn'' = Inr arn \<and>
           message = ''Service '' @ service @ '' updated to use task definition '' @ arn"
  using success_shape[OF assms] by blast

theorem confirmation_string_witness:
  "\<exists>kw registration registered arn.
     registrations (events_of (deploy_web ''web-task'' None web_world)) = [(kw, Inr registration)] \<and>
     getitem registration ''taskDefinition'' = Inr registered \<and>
     getitem registered ''taskDefinitionArn'' = Inr arn \<and>
     ''Service web updated to use task definition web-task:2'' =
       ''Service '' @ ''web'' @ '' updated to use task definition '' @ arn"
proof -
  have "result_of (deploy_web ''web-task'' None web_world) =
          Inr ''Service web updated to use task definition web-task:2''"
    by (simp add: evaluation)
  with deploy_web_run[of "''web-task''" None web_world]
  have "deploy in_memory default_module ''demo'' ''.'' ''access-key'' ''secret-key'' ''session-token''
          ''us-east-1'' ''web'' ''web-task'' None web_world =
        (Inr ''Service web updated to use task definition web-task:2'',
         events_of (deploy_web ''web-task'' None web_world), world_of (deploy_web ''web-task'' None web_world))"
    by simp
  from confirmation_string[OF this] show ?thesis .
qed



text \<open>
  C10. When the fetched body has its \<^verbatim>\<open>family\<close> and a list of container definitions none of
  which has an \<^verbatim>\<open>image\<close> field, \<^verbatim>\<open>deploy\<close> still calls RegisterTaskDefinition, once, with the
  container definitions as they were fetched; and when that registration answers with an
  ARN, it calls UpdateService, once, with that ARN.
\<close>

theorem registration_without_images:
  assumes "deploy co self cluster dir access_key secret_key session_token region service family image' w =
             (r, evs, w')"
      and "descriptions evs = [(asked, Inr described)]"
      and "getitem described ''taskDefinition'' = Inr td"
      and "getitem td ''containerDefinitions'' = Inr (JList ctrs)"
      and "\<forall>ctr\<in>set ctrs. \<exists>d. ctr = JDict d \<and> \<not> contains_key d ''image''"
      and "getitem td ''family'' = Inr fam"
  shows "\<exists>kw rr.
           registrations evs = [(kw, rr)] \<and>
           getitem kw ''containerDefinitions'' = Inr (JList ctrs) \<and>
           (\<forall>response registered arn.
              rr = Inr response \<longrightarrow> getitem response ''taskDefinition'' = Inr registered \<longrightarrow>
              getitem registered ''taskDefinitionArn'' = Inr arn \<longrightarrow>
              (\<exists>ur. service_updates evs =
                 [([(''cluster'', JStr cluster), (''service'', JStr service),
                    (''taskDefinition'', JStr arn)], ur)]))"
proof -
  from registration_follows[OF assms(1-3)] obtain ref where
    follows: "\<And>kw. register_arguments ref td = Inr kw \<Longrightarrow>
       \<exists>rr. registrations evs = [(kw, rr)] \<and>
         (\<forall>response registered arn.
            rr = Inr response \<longrightarrow> getitem response ''taskDefinition'' = Inr registered \<longrightarrow>
            getitem registered ''taskDefinitionArn'' = Inr arn \<longrightarrow>
            (\<exists>ur. service_updates evs =
               [([(''cluster'', JStr cluster), (''service'', JStr service),
                  (''taskDefinition'', JStr arn)], ur)]))"
    by blast
  from update_ctrs_without_image[OF assms(5)] have "update_images ref (JList ctrs) = Inr (JList ctrs)"
    by (simp add: update_images_def)
  with assms(4,6) obtain kw where
    derived: "register_arguments ref td = Inr kw" and
    same: "getitem kw ''containerDefinitions'' = Inr (JList ctrs)"
    by (simp add: register_arguments_def getitem_def)
  from follows[OF derived] same show ?thesis by blast
qed

theorem registration_without_images_witness:
  "\<exists>kw rr ur.
     registrations (events_of (deploy_web ''bare'' None bare_world)) = [(kw, rr)] \<and>
     getitem kw ''containerDefinitions'' = Inr (JList [JDict [(''name'', JStr ''sidecar'')]]) \<and>
     rr = Inr [(''taskDefinition'', [(''taskDefinitionArn'', ''bare:2'')])] \<and>
     service_updates (events_of (deploy_web ''bare'' None bare_world)) =
       [([(''cluster'', JStr ''demo''), (''service'', JStr ''web''), (''taskDefinition'', JStr ''bare:2'')], ur)]"
proof -
  have fetched: "descriptions (events_of (deploy_web ''bare'' None bare_world)) =
      [([(''taskDefinition'', JStr ''bare:1'')], Inr [(''taskDefinition'', bare_task)])]"
    by (simp add: evaluation)
  have body: "getitem [(''taskDefinition'', bare_task)] ''taskDefinition'' = Inr bare_task"
    by (simp add: getitem_def)
  have containers: "getitem bare_task ''containerDefinitions'' = Inr (JList [JDict [(''name'', JStr ''sidecar'')]])"
    by (simp add: getitem_def bare_task_def)
  have bare: "\<forall>ctr\<in>set [JDict [(''name'', JStr ''sidecar'')]]. \<exists>d. ctr = JDict d \<and> \<not> contains_key d ''image''"
    by (simp add: contains_key_def)
  have fam: "getitem bare_task ''family'' = Inr (JStr ''bare'')"
    by (simp add: getitem_def bare_task_def)
  have answered: "map snd (registrations (events_of (deploy_web ''bare'' None bare_world))) =
      [Inr [(''taskDefinition'', [(''taskDefinitionArn'', ''bare:2'')])]]"
    by (simp add: evaluation)
  from registration_without_images[OF deploy_web_run fetched body containers bare fam]
  obtain kw rr where
    one: "registrations (events_of (deploy_web ''bare'' None bare_world)) = [(kw, rr)]" and
    same: "getitem kw ''containerDefinitions'' = Inr (JList [JDict [(''name'', JStr ''sidecar'')]])" and
    swap: "\<And>response registered arn.
       rr = Inr response \<Longrightarrow> getitem response ''taskDefinition'' = Inr registered \<Longrightarrow>
       getitem registered ''taskDefinitionArn'' = Inr arn \<Longrightarrow>
       \<exists>ur. service_updates (events_of (deploy_web ''bare'' None bare_world)) =
          [([(''cluster'', JStr ''demo''), (''service'', JStr ''web''), (''taskDefinition'', JStr arn)], ur)]"
    by blast
  from one answered have rr: "rr = Inr [(''taskDefinition'', [(''taskDefinitionArn'', ''bare:2'')])]"
    by simp
  from swap[OF rr, of "[(''taskDefinitionArn'', ''bare:2'')]" "''bare:2''"]
  obtain ur where "service_updates (events_of (deploy_web ''bare'' None bare_world)) =
       [([(''cluster'', JStr ''demo''), (''service'', JStr ''web''), (''taskDefinition'', JStr ''bare:2'')], ur)]"
    by (auto simp: getitem_def)
  with one same rr show ?thesis
    by (intro exI[of _ kw] exI[of _ rr] exI[of _ ur] conjI)
qed

end
